theory Spec2Isabelle
  imports Complex_Main "HOL-Library.AList"
begin

section \<open>Floating-point values\<close>

text \<open>
  The analytics code computes with IEEE doubles (Python floats, numpy float64 and pandas
  Series of them).  The non-finite results that pandas and numpy produce instead of
  raising (not-a-number and the two infinities) are values of their own.  Signed zeros are
  not distinguished.  The entries of an input series are finite.

  Where only the value of a result is at stake (drawdown, profit factor, alpha and beta),
  finite doubles are idealised as real numbers and every operation returns the exact
  result.  Where the code tests a computed standard deviation for equality with zero
  (the Sharpe and Sortino ratios) or compares it with a threshold (the consistency
  analysis), the outcome depends on rounding and overflow: there the rounding of every
  operation and the reductions of the numerical libraries are parameters of the model
  (\<open>numerics\<close> below), and nothing is assumed of them.
\<close>

datatype fl = Fin real | PInf | NInf | NaN

fun fl_neg :: "fl \<Rightarrow> fl" where
  "fl_neg (Fin a) = Fin (- a)"
| "fl_neg PInf = NInf"
| "fl_neg NInf = PInf"
| "fl_neg NaN = NaN"

fun fl_add :: "fl \<Rightarrow> fl \<Rightarrow> fl" where
  "fl_add (Fin a) (Fin b) = Fin (a + b)"
| "fl_add NaN _ = NaN"
| "fl_add _ NaN = NaN"
| "fl_add PInf NInf = NaN"
| "fl_add NInf PInf = NaN"
| "fl_add PInf _ = PInf"
| "fl_add _ PInf = PInf"
| "fl_add NInf _ = NInf"
| "fl_add _ NInf = NInf"

definition fl_sub :: "fl \<Rightarrow> fl \<Rightarrow> fl" where
  "fl_sub a b = fl_add a (fl_neg b)"

text \<open>An infinity of the sign of a non-zero real, and not-a-number for zero.\<close>

definition fl_signed_inf :: "real \<Rightarrow> fl" where
  "fl_signed_inf s = (if s = 0 then NaN else if 0 < s then PInf else NInf)"

fun fl_mul :: "fl \<Rightarrow> fl \<Rightarrow> fl" where
  "fl_mul (Fin a) (Fin b) = Fin (a * b)"
| "fl_mul NaN _ = NaN"
| "fl_mul _ NaN = NaN"
| "fl_mul (Fin a) PInf = fl_signed_inf a"
| "fl_mul (Fin a) NInf = fl_signed_inf (- a)"
| "fl_mul PInf (Fin b) = fl_signed_inf b"
| "fl_mul NInf (Fin b) = fl_signed_inf (- b)"
| "fl_mul PInf PInf = PInf"
| "fl_mul NInf NInf = PInf"
| "fl_mul PInf NInf = NInf"
| "fl_mul NInf PInf = NInf"

text \<open>
  numpy division: a division by zero does not raise, it yields an infinity of the
  numerator's sign, or not-a-number for \<open>0 / 0\<close>.
\<close>

fun fl_div :: "fl \<Rightarrow> fl \<Rightarrow> fl" where
  "fl_div (Fin a) (Fin b) = (if b = 0 then fl_signed_inf a else Fin (a / b))"
| "fl_div NaN _ = NaN"
| "fl_div _ NaN = NaN"
| "fl_div (Fin a) PInf = Fin 0"
| "fl_div (Fin a) NInf = Fin 0"
| "fl_div PInf (Fin b) = (if 0 \<le> b then PInf else NInf)"
| "fl_div NInf (Fin b) = (if 0 \<le> b then NInf else PInf)"
| "fl_div PInf PInf = NaN"
| "fl_div PInf NInf = NaN"
| "fl_div NInf PInf = NaN"
| "fl_div NInf NInf = NaN"

fun fl_abs :: "fl \<Rightarrow> fl" where
  "fl_abs (Fin a) = Fin \<bar>a\<bar>"
| "fl_abs PInf = PInf"
| "fl_abs NInf = PInf"
| "fl_abs NaN = NaN"

fun fl_sqrt :: "fl \<Rightarrow> fl" where
  "fl_sqrt (Fin a) = (if a < 0 then NaN else Fin (sqrt a))"
| "fl_sqrt PInf = PInf"
| "fl_sqrt NInf = NaN"
| "fl_sqrt NaN = NaN"

text \<open>\<open>x ** n\<close> for a non-negative integer exponent; \<open>x ** 0\<close> is 1 for every x.\<close>

fun fl_pow :: "fl \<Rightarrow> nat \<Rightarrow> fl" where
  "fl_pow (Fin a) n = Fin (a ^ n)"
| "fl_pow NaN n = (if n = 0 then Fin 1 else NaN)"
| "fl_pow PInf n = (if n = 0 then Fin 1 else PInf)"
| "fl_pow NInf n = (if n = 0 then Fin 1 else if even n then PInf else NInf)"

text \<open>Comparisons: every comparison with not-a-number is false (so \<open>!=\<close> is true).\<close>

fun fl_lt :: "fl \<Rightarrow> fl \<Rightarrow> bool" where
  "fl_lt NaN _ = False"
| "fl_lt _ NaN = False"
| "fl_lt (Fin a) (Fin b) = (a < b)"
| "fl_lt _ NInf = False"
| "fl_lt NInf _ = True"
| "fl_lt PInf _ = False"
| "fl_lt _ PInf = True"

definition fl_eq :: "fl \<Rightarrow> fl \<Rightarrow> bool" where
  "fl_eq a b = (a \<noteq> NaN \<and> a = b)"

subsection \<open>Rounding and library reductions\<close>

text \<open>
  The double arithmetic and the library reductions the metrics run on:
  \<open>rnd x\<close> is the double an operation returns when its exact result is \<open>x\<close> (a
  nearest double or, out of range, an infinity); \<open>std_of\<close> and \<open>mean_of\<close> are
  pandas' \<open>Series.std()\<close> and \<open>Series.mean()\<close>; \<open>np_mean_of\<close> is \<open>np.mean\<close> and
  \<open>np_std_of\<close> is \<open>np.std\<close> on a non-empty list of finite values.  An operation on
  doubles is the exact operation followed by rounding; rounding leaves infinities and
  not-a-number alone.
\<close>

record numerics =
  rnd :: "real \<Rightarrow> fl"
  std_of :: "fl list \<Rightarrow> fl"
  mean_of :: "fl list \<Rightarrow> fl"
  np_mean_of :: "fl list \<Rightarrow> fl"
  np_std_of :: "real list \<Rightarrow> fl"

definition fl_round :: "numerics \<Rightarrow> fl \<Rightarrow> fl" where
  "fl_round N x = (case x of Fin a \<Rightarrow> rnd N a | _ \<Rightarrow> x)"

text \<open>The finite values of a list of doubles, if all of them are finite.\<close>

fun fin_of :: "fl \<Rightarrow> real option" where
  "fin_of (Fin a) = Some a"
| "fin_of _ = None"

definition finite_values :: "fl list \<Rightarrow> real list option" where
  "finite_values xs = those (map fin_of xs)"

section \<open>pandas and numpy reductions\<close>

text \<open>The arithmetic mean and the sum of squared deviations from it, over the reals.\<close>

definition mean :: "real list \<Rightarrow> real" where
  "mean xs = sum_list xs / real (length xs)"

definition sum_sq_dev :: "real list \<Rightarrow> real" where
  "sum_sq_dev xs = (\<Sum>x\<leftarrow>xs. (x - mean xs)\<^sup>2)"

definition sum_co_dev :: "real list \<Rightarrow> real list \<Rightarrow> real" where
  "sum_co_dev xs ys = (\<Sum>(x, y)\<leftarrow>zip xs ys. (x - mean xs) * (y - mean ys))"

text \<open>\<open>Series.mean()\<close> with exact arithmetic: not-a-number on an empty series.\<close>

definition series_mean :: "real list \<Rightarrow> fl" where
  "series_mean xs = (if xs = [] then NaN else Fin (mean xs))"

text \<open>
  \<open>Series.min()\<close> skips not-a-number entries and yields not-a-number when nothing is left.
\<close>

definition fl_min :: "fl \<Rightarrow> fl \<Rightarrow> fl" where
  "fl_min a b = (if fl_lt b a then b else a)"

definition series_min :: "fl list \<Rightarrow> fl" where
  "series_min xs =
     (case filter (\<lambda>x. x \<noteq> NaN) xs of [] \<Rightarrow> NaN | y # ys \<Rightarrow> fold fl_min ys y)"

text \<open>\<open>Series.cummax()\<close>: the running maximum.\<close>

fun cummax_from :: "real \<Rightarrow> real list \<Rightarrow> real list" where
  "cummax_from m [] = []"
| "cummax_from m (x # xs) = max m x # cummax_from (max m x) xs"

definition cummax :: "real list \<Rightarrow> real list" where
  "cummax xs = (case xs of [] \<Rightarrow> [] | x # ys \<Rightarrow> x # cummax_from x ys)"

text \<open>
  \<open>np.var(a)\<close> divides by \<open>n\<close> (numpy's default \<open>ddof=0\<close>, which it also passes on when
  \<open>a\<close> is a pandas Series); \<open>np.cov(x, y)[0][1]\<close> divides by \<open>n - 1\<close> (the default of
  \<open>np.cov\<close>).  Both yield not-a-number, with a warning, when the divisor is not positive.
\<close>

definition np_var :: "real list \<Rightarrow> fl" where
  "np_var xs = (if xs = [] then NaN else Fin (sum_sq_dev xs / real (length xs)))"

definition np_cov :: "real list \<Rightarrow> real list \<Rightarrow> fl" where
  "np_cov xs ys =
     (if length xs < 2 then NaN else Fin (sum_co_dev xs ys / real (length xs - 1)))"

text \<open>
  \<open>np.corrcoef(x, y)[0][1]\<close>: the covariance divided by the two standard deviations
  (each the square root of a diagonal entry of the covariance matrix), one after the
  other, then clipped to \<open>[-1, 1]\<close>; the clip leaves not-a-number alone.
\<close>

definition fl_clip :: "fl \<Rightarrow> real \<Rightarrow> real \<Rightarrow> fl" where
  "fl_clip x lo hi =
     (if fl_lt x (Fin lo) then Fin lo else if fl_lt (Fin hi) x then Fin hi else x)"

definition np_corrcoef :: "real list \<Rightarrow> real list \<Rightarrow> fl" where
  "np_corrcoef xs ys =
     fl_clip (fl_div (fl_div (np_cov xs ys) (fl_sqrt (np_cov xs xs))) (fl_sqrt (np_cov ys ys)))
       (- 1) 1"

section \<open>Performance metrics (backtest/performance\_metrics.py)\<close>

text \<open>
  \<open>PerformanceMetrics.calculate_sharpe_ratio(returns, risk_free_rate)\<close>, in the
  arithmetic \<open>N\<close>: the daily rate \<open>risk_free_rate / 252\<close> is one double, it is
  subtracted from every return, and \<open>np.sqrt(252)\<close> is a double.
\<close>

definition calculate_sharpe_ratio :: "numerics \<Rightarrow> real list \<Rightarrow> real \<Rightarrow> fl" where
  "calculate_sharpe_ratio N returns risk_free_rate =
     (let daily_rate = fl_round N (fl_div (Fin risk_free_rate) (Fin 252));
          excess_returns = map (\<lambda>r. fl_round N (fl_sub (Fin r) daily_rate)) returns in
      if fl_eq (std_of N excess_returns) (Fin 0) then Fin 0
      else fl_round N
             (fl_mul (fl_round N (fl_div (mean_of N excess_returns) (std_of N excess_returns)))
                (rnd N (sqrt 252))))"


text \<open>\<open>PerformanceMetrics.calculate_max_drawdown(equity_curve)\<close>\<close>

definition calculate_max_drawdown :: "real list \<Rightarrow> fl" where
  "calculate_max_drawdown equity_curve =
     (let cm = cummax equity_curve;
          drawdown = map (\<lambda>(e, m). fl_div (Fin (e - m)) (Fin m)) (zip equity_curve cm) in
      fl_mul (fl_abs (series_min drawdown)) (Fin 100))"

text \<open>
  A row of the trades table; the metrics read its \<open>pnl\<close> column only.
\<close>

record trade =
  pnl :: real

text \<open>\<open>PerformanceMetrics.calculate_profit_factor(trades)\<close>\<close>

definition calculate_profit_factor :: "trade list \<Rightarrow> fl" where
  "calculate_profit_factor trades =
     (if length trades = 0 then Fin 0
      else let gross_profit = sum_list (map pnl (filter (\<lambda>t. pnl t > 0) trades));
               gross_loss = \<bar>sum_list (map pnl (filter (\<lambda>t. pnl t < 0) trades))\<bar> in
        if gross_loss = 0 then (if gross_profit > 0 then PInf else Fin 0)
        else Fin (gross_profit / gross_loss))"

section \<open>Benchmark comparison (backtest/benchmark\_comparison.py)\<close>

text \<open>
  A pandas Series with its index: the rows in order, each a label (a timestamp) and a
  value.  A Python dictionary with string keys is an association list in insertion order.
\<close>

type_synonym series = "(int \<times> real) list"

type_synonym 'v dict = "(string \<times> 'v) list"

datatype py_error = ValueError | KeyError | NameError string | ImportError string

text \<open>
  \<open>Index.unique()\<close> keeps the first occurrence of every label.
  \<open>a.intersection(b)\<close> holds the labels of \<open>a\<close> that occur in \<open>b\<close>, each once, in the
  order of \<open>a\<close>.
\<close>

definition index_unique :: "int list \<Rightarrow> int list" where
  "index_unique ks = rev (remdups (rev ks))"

definition index_intersection :: "int list \<Rightarrow> int list \<Rightarrow> int list" where
  "index_intersection a b = filter (\<lambda>k. k \<in> set b) (index_unique a)"

text \<open>
  \<open>s.loc[labels]\<close>: for every label in turn, all rows of \<open>s\<close> that carry it; a label
  that no row carries raises \<open>KeyError\<close>.
\<close>

definition loc :: "series \<Rightarrow> int list \<Rightarrow> py_error + real list" where
  "loc s labels =
     (if \<not> list_all (\<lambda>k. k \<in> set (map fst s)) labels then Inl KeyError
      else Inr (concat (map (\<lambda>k. map snd (filter (\<lambda>row. fst row = k) s)) labels)))"

text \<open>
  \<open>BenchmarkComparison.calculate_alpha_beta(strategy_returns, benchmark_returns)\<close>.
  \<open>np.cov\<close> and \<open>np.corrcoef\<close> raise \<open>ValueError\<close> when their two arguments differ in
  length.  The warning written to the log when the overlap is short is not part of the
  returned dictionary.
\<close>

definition calculate_alpha_beta :: "series \<Rightarrow> series \<Rightarrow> py_error + fl dict" where
  "calculate_alpha_beta strategy_returns benchmark_returns =
     (let common_idx = index_intersection (map fst strategy_returns) (map fst benchmark_returns) in
      if length common_idx < 30
      then Inr [(''alpha'', Fin 0), (''beta'', Fin 1), (''correlation'', Fin 0)]
      else
        (case loc strategy_returns common_idx of Inl e \<Rightarrow> Inl e
        | Inr strategy_aligned \<Rightarrow>
        (case loc benchmark_returns common_idx of Inl e \<Rightarrow> Inl e
        | Inr benchmark_aligned \<Rightarrow>
        if length strategy_aligned \<noteq> length benchmark_aligned then Inl ValueError
        else
          let covariance = np_cov strategy_aligned benchmark_aligned;
              benchmark_variance = np_var benchmark_aligned;
              beta = (if \<not> fl_eq benchmark_variance (Fin 0)
                      then fl_div covariance benchmark_variance else Fin 1);
              strategy_return =
                fl_sub (fl_pow (fl_add (Fin 1) (series_mean strategy_aligned)) 252) (Fin 1);
              benchmark_return =
                fl_sub (fl_pow (fl_add (Fin 1) (series_mean benchmark_aligned)) 252) (Fin 1);
              alpha = fl_sub strategy_return (fl_mul beta benchmark_return);
              correlation = np_corrcoef strategy_aligned benchmark_aligned
          in Inr [(''alpha'', fl_mul alpha (Fin 100)), (''beta'', beta),
                  (''correlation'', correlation)])))"

text \<open>
  The beta computed inside \<open>BacktestEngine._compare_with_benchmark\<close> (backtest\_engine.py)
  from the portfolio's daily returns and the benchmark's daily returns: the same
  alignment and the same quotient, without the 30-point guard.
\<close>

definition compare_with_benchmark_beta :: "series \<Rightarrow> series \<Rightarrow> py_error + fl" where
  "compare_with_benchmark_beta portfolio_returns spy_daily_returns =
     (let common_idx =
            index_intersection (map fst portfolio_returns) (map fst spy_daily_returns) in
      (case loc portfolio_returns common_idx of Inl e \<Rightarrow> Inl e
      | Inr portfolio_returns_aligned \<Rightarrow>
      (case loc spy_daily_returns common_idx of Inl e \<Rightarrow> Inl e
      | Inr spy_returns_aligned \<Rightarrow>
      if length portfolio_returns_aligned \<noteq> length spy_returns_aligned then Inl ValueError
      else
        let covariance = np_cov portfolio_returns_aligned spy_returns_aligned;
            market_variance = np_var spy_returns_aligned
        in Inr (if \<not> fl_eq market_variance (Fin 0)
                then fl_div covariance market_variance else Fin 1))))"

section \<open>Backtest engine (backtest/backtest\_engine.py)\<close>

subsection \<open>Synthetic social data\<close>

text \<open>
  The price frame as the engine reads it: the index and the \<open>Close\<close> column.
  \<open>fetch_historical_data(ticker, years)\<close> queries the market-data provider (and the
  clock); it is a parameter \<open>provider\<close> here, \<open>None\<close> when nothing was retrieved.
\<close>

type_synonym price_data = series

record social_row =
  social_ts :: int
  sentiment :: fl
  mentions :: fl

text \<open>
  The values that the two calls of \<open>np.random.normal\<close> return, by position.  The
  generator is not seeded anywhere in the module, so the draws are an input of their own.
\<close>

record draws =
  sentiment_noise :: "nat \<Rightarrow> real"
  mentions_noise :: "nat \<Rightarrow> real"

text \<open>
  \<open>Series.pct_change()\<close>: not-a-number first, then \<open>p[i] / p[i-1] - 1\<close>.  Prices are
  taken to be non-zero, so that every later return is finite.
\<close>

fun pct_change_from :: "real \<Rightarrow> real list \<Rightarrow> fl list" where
  "pct_change_from p [] = []"
| "pct_change_from p (q # qs) = fl_sub (fl_div (Fin q) (Fin p)) (Fin 1) # pct_change_from q qs"

definition pct_change :: "real list \<Rightarrow> fl list" where
  "pct_change ps = (case ps of [] \<Rightarrow> [] | p # qs \<Rightarrow> NaN # pct_change_from p qs)"

text \<open>
  \<open>Series.rolling(w).mean()\<close>: not-a-number until \<open>w\<close> values are present and while
  the window holds a not-a-number; otherwise the mean of the last \<open>w\<close> values.
\<close>

definition rolling_mean :: "nat \<Rightarrow> fl list \<Rightarrow> fl list" where
  "rolling_mean w xs =
     map (\<lambda>i. if Suc i < w then NaN
              else let window = take w (drop (Suc i - w) xs) in
                if NaN \<in> set window then NaN
                else fl_div (fold fl_add window (Fin 0)) (Fin (real w)))
       [0..<length xs]"

text \<open>\<open>BacktestEngine.fetch_social_historical_data(ticker, years)\<close>\<close>

definition fetch_social_historical_data ::
  "(string \<Rightarrow> int \<Rightarrow> price_data option) \<Rightarrow> draws \<Rightarrow> string \<Rightarrow> int \<Rightarrow> social_row list option"
where
  "fetch_social_historical_data provider rng ticker years =
     (case provider ticker years of None \<Rightarrow> None
      | Some price_data \<Rightarrow>
          let returns = pct_change (map snd price_data);
              rolled = rolling_mean 5 returns
          in Some (map (\<lambda>i. \<lparr>social_ts = fst (price_data ! i),
                               sentiment = fl_add (rolled ! i) (Fin (sentiment_noise rng i)),
                               mentions = fl_abs (Fin (mentions_noise rng i))\<rparr>)
                    [0..<length price_data]))"

subsection \<open>A single backtest\<close>

text \<open>
  \<open>algorithm_code\<close> is Python source that \<open>run_backtest\<close> executes; what the engine
  gets out of it is one of: an exception while executing it, no class whose name ends in
  \<open>Strategy\<close>, or such a class, which is instantiated and of which
  \<open>generate_signals(price_data, social_data, news_data)\<close> is called (with an empty
  \<open>news_data\<close>); this yields the entry and exit signals or raises.
\<close>

datatype algorithm =
    Exec_raises string
  | No_strategy_class
  | Strategy_class "price_data \<Rightarrow> social_row list option \<Rightarrow> string + (bool list \<times> bool list)"

text \<open>
  \<open>BacktestEngine.run_backtest(algorithm_code, ticker, years, initial_capital)\<close>.
  The portfolio simulation \<open>vbt.Portfolio.from_signals\<close> is the vectorbt library's, and
  the results dictionary is assembled from the portfolio's own methods
  (\<open>_calculate_metrics\<close>, \<open>_compare_with_benchmark\<close>, the latter with the benchmark's
  prices from the provider); both are parameters, and either may raise.  Every exception
  is caught and returned as \<open>{'error': message}\<close>, here \<open>Inl message\<close>.
\<close>

definition run_backtest ::
  "(string \<Rightarrow> int \<Rightarrow> price_data option) \<Rightarrow> draws
   \<Rightarrow> (real list \<Rightarrow> bool list \<Rightarrow> bool list \<Rightarrow> real \<Rightarrow> real \<Rightarrow> real \<Rightarrow> string + 'p)
   \<Rightarrow> ('p \<Rightarrow> price_data \<Rightarrow> string \<Rightarrow> int \<Rightarrow> price_data option \<Rightarrow> string + 'r)
   \<Rightarrow> algorithm \<Rightarrow> string \<Rightarrow> int \<Rightarrow> real \<Rightarrow> string + 'r"
where
  "run_backtest provider rng from_signals results_of algorithm_code ticker years initial_capital =
     (let price_data = provider ticker years;
          social_data = fetch_social_historical_data provider rng ticker years
      in case price_data of None \<Rightarrow> Inl ''Data fetch failed''
         | Some price_data \<Rightarrow>
         (case algorithm_code of
            Exec_raises msg \<Rightarrow> Inl msg
          | No_strategy_class \<Rightarrow> Inl ''No strategy class found in code''
          | Strategy_class generate_signals \<Rightarrow>
            (case generate_signals price_data social_data of
               Inl msg \<Rightarrow> Inl msg
             | Inr (entries, exits) \<Rightarrow>
               (case from_signals (map snd price_data) entries exits initial_capital
                       (1 / 1000) (5 / 10000) of
                  Inl msg \<Rightarrow> Inl msg
                | Inr portfolio \<Rightarrow>
                    results_of portfolio price_data ticker years (provider ''SPY'' years)))))"

subsection \<open>Several periods and their consistency\<close>

text \<open>
  The two entries of a successful results dictionary that the consistency analysis reads.
\<close>

record backtest_results =
  total_return :: fl
  sharpe_ratio :: fl

text \<open>
  The dictionary built by \<open>run_multiple_backtests\<close>: under the key \<open>f'{years}Y'\<close> the
  result of that period's backtest (\<open>{'error': message}\<close> or a results dictionary), and
  under \<open>'consistency_analysis'\<close> the analysis.
\<close>

datatype results_key = Period int | Consistency_analysis

datatype analysis_value = Number fl | Boolean bool

datatype 'r results_value = Backtest "string + 'r" | Analysis "analysis_value dict"

text \<open>
  \<open>np.std\<close> is \<open>sqrt(mean(abs(x - mean(x)) ** 2))\<close>: with an entry that is not finite
  the mean is not finite either and a deviation is \<open>inf - inf\<close> or not-a-number, so the
  result is not-a-number, as it is for an empty list; on finite entries it is the
  library's double computation \<open>np_std_of\<close>.
\<close>

definition np_std :: "numerics \<Rightarrow> fl list \<Rightarrow> fl" where
  "np_std N xs =
     (case finite_values xs of
        None \<Rightarrow> NaN
      | Some vs \<Rightarrow> if vs = [] then NaN else np_std_of N vs)"

text \<open>\<open>'error' in data\<close>\<close>

fun has_error_key :: "'r results_value \<Rightarrow> bool" where
  "has_error_key (Backtest (Inl msg)) = True"
| "has_error_key (Backtest (Inr r)) = False"
| "has_error_key (Analysis d) = (''error'' \<in> set (map fst d))"

text \<open>
  The loop of \<open>_analyze_consistency\<close>; reading \<open>data['sharpe_ratio']\<close> from a dictionary
  without that key raises \<open>KeyError\<close>.
\<close>

fun collect_ratios ::
  "(results_key \<times> ('a backtest_results_scheme) results_value) list \<Rightarrow> py_error + (fl list \<times> fl list)"
where
  "collect_ratios [] = Inr ([], [])"
| "collect_ratios ((period, data) # rest) =
     (if period \<noteq> Consistency_analysis \<and> \<not> has_error_key data
      then (case data of
              Backtest (Inr r) \<Rightarrow>
                (case collect_ratios rest of Inl e \<Rightarrow> Inl e
                 | Inr (sharpe_ratios, returns) \<Rightarrow>
                     Inr (sharpe_ratio r # sharpe_ratios, total_return r # returns))
            | _ \<Rightarrow> Inl KeyError)
      else collect_ratios rest)"

text \<open>\<open>BacktestEngine._analyze_consistency(results)\<close>\<close>

definition analyze_consistency ::
  "numerics \<Rightarrow> (results_key \<times> ('a backtest_results_scheme) results_value) list
   \<Rightarrow> py_error + analysis_value dict"
where
  "analyze_consistency N results =
     (case collect_ratios results of Inl e \<Rightarrow> Inl e
      | Inr (sharpe_ratios, returns) \<Rightarrow>
          if sharpe_ratios = [] then Inr []
          else Inr [(''sharpe_consistency'', Number (np_std N sharpe_ratios)),
                    (''return_consistency'', Number (np_std N returns)),
                    (''avg_sharpe'', Number (np_mean_of N sharpe_ratios)),
                    (''avg_return'', Number (np_mean_of N returns)),
                    (''is_consistent'', Boolean (fl_lt (np_std N sharpe_ratios) (Fin (1 / 2))))])"

text \<open>
  \<open>BacktestEngine.run_multiple_backtests(algorithm_code, ticker, periods)\<close>.  The
  \<open>i\<close>-th call of \<open>run_backtest\<close> (which never raises) is \<open>run i years\<close>: two calls
  for the same period need not agree.  Storing under a key that is present replaces the
  value in place.
\<close>

fun run_periods ::
  "(nat \<Rightarrow> int \<Rightarrow> string + 'r) \<Rightarrow> nat \<Rightarrow> int list
   \<Rightarrow> (results_key \<times> 'r results_value) list \<Rightarrow> (results_key \<times> 'r results_value) list"
where
  "run_periods run i [] results = results"
| "run_periods run i (years # periods) results =
     run_periods run (Suc i) periods
       (AList.update (Period years) (Backtest (run i years)) results)"

definition run_multiple_backtests ::
  "numerics \<Rightarrow> (nat \<Rightarrow> int \<Rightarrow> string + 'a backtest_results_scheme) \<Rightarrow> int list
   \<Rightarrow> py_error + (results_key \<times> ('a backtest_results_scheme) results_value) list"
where
  "run_multiple_backtests N run periods =
     (let results = run_periods run 0 periods [] in
      case analyze_consistency N results of Inl e \<Rightarrow> Inl e
      | Inr analysis \<Rightarrow> Inr (AList.update Consistency_analysis (Analysis analysis) results))"

subsection \<open>Loading the module\<close>

text \<open>
  What executing a module's top-level statements does to its namespace, as far as names
  are concerned.  An import binds names.  A class statement executes its body: each
  \<open>def\<close> evaluates the annotations of its signature when it is executed (the
  interpreters the package declares, Python 3.8 to 3.11, without
  \<open>from __future__ import annotations\<close>), looking every name up in the class body's
  namespace, the module's and the builtins; an unbound name raises \<open>NameError\<close> and the
  class name is never bound.
\<close>

datatype stmt =
    Import "string list"
  | Class_def string "(string \<times> string list) list"

definition builtins :: "string list" where
  "builtins = [''str'', ''int'', ''float'', ''bool'', ''list'', ''dict'', ''tuple'', ''set'',
               ''object'', ''len'', ''abs'', ''isinstance'', ''hasattr'', ''type'', ''exec'',
               ''Exception'']"

fun exec_class_body :: "string list \<Rightarrow> string list \<Rightarrow> (string \<times> string list) list \<Rightarrow> py_error + unit" where
  "exec_class_body globals locals [] = Inr ()"
| "exec_class_body globals locals ((name, annotation_names) # defs) =
     (case filter (\<lambda>n. n \<notin> set locals \<and> n \<notin> set globals \<and> n \<notin> set builtins) annotation_names of
        [] \<Rightarrow> exec_class_body globals (locals @ [name]) defs
      | n # _ \<Rightarrow> Inl (NameError n))"

fun exec_module :: "string list \<Rightarrow> stmt list \<Rightarrow> py_error + string list" where
  "exec_module globals [] = Inr globals"
| "exec_module globals (Import names # rest) = exec_module (globals @ names) rest"
| "exec_module globals (Class_def name defs # rest) =
     (case exec_class_body globals [] defs of
        Inl e \<Rightarrow> Inl e
      | Inr _ \<Rightarrow> exec_module (globals @ [name]) rest)"

text \<open>
  The top level of backtest\_engine.py: its seven import statements and the class
  \<open>BacktestEngine\<close> with, for each method in order, the names its signature's
  annotations evaluate (parameters left to right, then the return annotation).
\<close>

definition backtest_engine_module :: "stmt list" where
  "backtest_engine_module =
     [Import [''vbt''], Import [''pd''], Import [''np''],
      Import [''datetime'', ''timedelta''], Import [''Dict'', ''Tuple''],
      Import [''logger''], Import [''yf''],
      Class_def ''BacktestEngine''
        [(''__init__'', []),
         (''fetch_historical_data'', [''str'', ''int'', ''pd'']),
         (''fetch_social_historical_data'', [''str'', ''int'', ''pd'']),
         (''run_backtest'', [''str'', ''str'', ''int'', ''float'', ''Dict'']),
         (''_calculate_metrics'', [''vbt'', ''pd'', ''str'', ''Dict'']),
         (''_compare_with_benchmark'', [''vbt'', ''str'', ''int'', ''Dict'']),
         (''run_multiple_backtests'', [''str'', ''str'', ''List'', ''int'', ''Dict'']),
         (''_analyze_consistency'', [''Dict'', ''Dict''])]]"

text \<open>
  \<open>from backtest_engine import name\<close>: the module is executed first; an exception
  there propagates to the importer.
\<close>

definition import_from :: "stmt list \<Rightarrow> string \<Rightarrow> py_error + string" where
  "import_from stmts name =
     (case exec_module [] stmts of
        Inl e \<Rightarrow> Inl e
      | Inr globals \<Rightarrow> if name \<in> set globals then Inr name else Inl (ImportError name))"

section \<open>The specification's formulas\<close>

text \<open>
  The quantities the specification names.  For the Sharpe and Sortino ratios of section
  4.2, in the arithmetic \<open>N\<close>: the excess returns \<open>r - risk_free_annual/252\<close>, the
  negative ones among them, and the annualised ratio \<open>m / s * sqrt(252)\<close>.  Over the reals: gross profit and gross loss
  of a trade ledger, the running maximum and the drawdown of an equity curve, and the
  sample and population standard deviations.
\<close>

definition excess_of :: "numerics \<Rightarrow> real list \<Rightarrow> real \<Rightarrow> fl list" where
  "excess_of N r risk_free_annual =
     map (\<lambda>x. fl_round N (fl_sub (Fin x) (fl_round N (fl_div (Fin risk_free_annual) (Fin 252))))) r"



definition sample_std :: "real list \<Rightarrow> real" where
  "sample_std xs = sqrt (sum_sq_dev xs / (real (length xs) - 1))"

definition gross_profit :: "trade list \<Rightarrow> real" where
  "gross_profit T = (\<Sum>t\<leftarrow>T. if pnl t > 0 then pnl t else 0)"

definition gross_loss :: "trade list \<Rightarrow> real" where
  "gross_loss T = \<bar>\<Sum>t\<leftarrow>T. if pnl t < 0 then pnl t else 0\<bar>"

definition running_max :: "real list \<Rightarrow> nat \<Rightarrow> real" where
  "running_max E t = Max (set (take (Suc t) E))"

definition drawdown_at :: "real list \<Rightarrow> nat \<Rightarrow> real" where
  "drawdown_at E t = (E ! t - running_max E t) / running_max E t"

definition max_drawdown_spec :: "real list \<Rightarrow> real" where
  "max_drawdown_spec E = \<bar>Min (drawdown_at E ` {..<length E})\<bar> * 100"

text \<open>
  The population standard deviation (divisor \<open>n\<close>); the reports of the windows that
  succeeded, in the order of the results dictionary; the dictionaries that hold window
  results only; and the aggregation of section 4.4 over a list of successful reports, in
  the arithmetic \<open>N\<close>.
\<close>

definition population_std :: "real list \<Rightarrow> real" where
  "population_std xs = sqrt (sum_sq_dev xs / real (length xs))"

fun successful_entry :: "results_key \<times> 'r results_value \<Rightarrow> 'r list" where
  "successful_entry (Period y, Backtest (Inr r)) = [r]"
| "successful_entry _ = []"

definition successful :: "(results_key \<times> 'r results_value) list \<Rightarrow> 'r list" where
  "successful results = concat (map successful_entry results)"

fun window_entry :: "results_key \<times> 'r results_value \<Rightarrow> bool" where
  "window_entry (Period y, Backtest res) = True"
| "window_entry _ = False"

definition aggregate :: "numerics \<Rightarrow> 'a backtest_results_scheme list \<Rightarrow> analysis_value dict" where
  "aggregate N reports =
     (if reports = [] then []
      else [(''sharpe_consistency'', Number (np_std N (map sharpe_ratio reports))),
            (''return_consistency'', Number (np_std N (map total_return reports))),
            (''avg_sharpe'', Number (np_mean_of N (map sharpe_ratio reports))),
            (''avg_return'', Number (np_mean_of N (map total_return reports))),
            (''is_consistent'',
               Boolean (fl_lt (np_std N (map sharpe_ratio reports)) (Fin (1 / 2))))])"

text \<open>
  An explicit flag in the dictionary returned by \<open>calculate_alpha_beta\<close> would be an
  entry besides \<open>alpha\<close>, \<open>beta\<close> and \<open>correlation\<close>.
\<close>

definition flag_entries :: "fl dict \<Rightarrow> string list" where
  "flag_entries d = filter (\<lambda>k. k \<notin> set [''alpha'', ''beta'', ''correlation'']) (map fst d)"

section \<open>Concrete inputs\<close>

text \<open>
  An arithmetic in which no operation rounds: every operation and reduction returns the
  exact result (not-a-number where pandas and numpy give it: a standard deviation of
  fewer than two values, a mean of none, a reduction over an entry that is not finite).
  It agrees with the double arithmetic wherever every intermediate result is a double,
  as for the series of quarters and halves used below.
\<close>

definition exact_std :: "fl list \<Rightarrow> fl" where
  "exact_std xs =
     (case finite_values xs of
        None \<Rightarrow> NaN
      | Some vs \<Rightarrow> if length vs < 2 then NaN else Fin (sample_std vs))"

definition exact_mean :: "fl list \<Rightarrow> fl" where
  "exact_mean xs = fl_div (fold fl_add xs (Fin 0)) (Fin (real (length xs)))"

definition exact_numerics :: numerics where
  "exact_numerics =
     \<lparr>rnd = Fin, std_of = exact_std, mean_of = exact_mean, np_mean_of = exact_mean,
      np_std_of = (\<lambda>vs. Fin (population_std vs))\<rparr>"

text \<open>
  A return series of thirty days: three percent on the first day, nothing afterwards.
\<close>

definition spike_series :: series where
  "spike_series = (0, 3 / 100) # map (\<lambda>i. (int i, 0)) [1..<30]"

text \<open>Two short return series that share their single timestamp.\<close>

definition one_day_strategy :: series where
  "one_day_strategy = [(0, 1 / 100)]"

definition one_day_benchmark :: series where
  "one_day_benchmark = [(0, 2 / 100)]"



text \<open>
  Backtest runs for a batch: one whose one-year window fails, one whose windows all fail.
\<close>

definition one_year_fails :: "nat \<Rightarrow> int \<Rightarrow> string + backtest_results" where
  "one_year_fails i years =
     (if years = 1 then Inl ''Data fetch failed''
      else Inr \<lparr>total_return = Fin 10, sharpe_ratio = Fin 1\<rparr>)"

definition all_fail :: "nat \<Rightarrow> int \<Rightarrow> string + backtest_results" where
  "all_fail i years = Inl ''Data fetch failed''"

text \<open>
  Modelled from the spec: the portfolio simulation, which the engine delegates to
  vectorbt's \<open>Portfolio.from_signals\<close> (not part of the repository).  Section 4.1 of the
  specification describes it as a walk over the bars in two states, flat and long: an
  enter signal while flat opens a position, an exit signal while long closes it and
  appends a trade, every other signal is ignored.  \<open>closed_trades\<close> counts the trades of
  that walk; \<open>simulate_trades\<close> is the simulation reduced to this count, and
  \<open>total_trades_of\<close> reports it.
\<close>

fun closed_trades :: "bool \<Rightarrow> (bool \<times> bool) list \<Rightarrow> nat" where
  "closed_trades long [] = 0"
| "closed_trades False ((enter, exit) # rest) =
     (if enter then closed_trades True rest else closed_trades False rest)"
| "closed_trades True ((enter, exit) # rest) =
     (if exit then Suc (closed_trades False rest) else closed_trades True rest)"

definition simulate_trades ::
  "real list \<Rightarrow> bool list \<Rightarrow> bool list \<Rightarrow> real \<Rightarrow> real \<Rightarrow> real \<Rightarrow> string + nat" where
  "simulate_trades close entries exits init_cash fees slippage =
     (if length entries \<noteq> length close \<or> length exits \<noteq> length close
      then Inl ''SimulationError''
      else Inr (closed_trades False (zip entries exits)))"

definition total_trades_of ::
  "nat \<Rightarrow> price_data \<Rightarrow> string \<Rightarrow> int \<Rightarrow> price_data option \<Rightarrow> string + nat" where
  "total_trades_of portfolio price_data ticker years benchmark = Inr portfolio"

text \<open>
  Seven bars at a constant close of 100; a strategy that enters on positive and exits on
  negative sentiment; a strategy that reads prices only; and two outcomes of the random
  draws that differ in the sixth sentiment value.
\<close>

definition flat_prices :: price_data where
  "flat_prices = map (\<lambda>i. (int i, 100)) [0..<7]"

definition flat_provider :: "string \<Rightarrow> int \<Rightarrow> price_data option" where
  "flat_provider ticker years = Some flat_prices"

definition sentiment_strategy :: algorithm where
  "sentiment_strategy =
     Strategy_class (\<lambda>price_data social_data.
       case social_data of None \<Rightarrow> Inl ''no social data''
       | Some rows \<Rightarrow> Inr (map (\<lambda>r. fl_lt (Fin 0) (sentiment r)) rows,
                           map (\<lambda>r. fl_lt (sentiment r) (Fin 0)) rows))"

definition price_strategy :: algorithm where
  "price_strategy =
     Strategy_class (\<lambda>price_data social_data.
       Inr (map (\<lambda>row. snd row < 101) price_data, map (\<lambda>row. 101 < snd row) price_data))"

definition draws_a :: draws where
  "draws_a = \<lparr>sentiment_noise = (\<lambda>i. if i = 5 then 1 / 10 else - 1 / 10),
              mentions_noise = (\<lambda>i. 100)\<rparr>"

definition draws_b :: draws where
  "draws_b = \<lparr>sentiment_noise = (\<lambda>i. - 1 / 10), mentions_noise = (\<lambda>i. 100)\<rparr>"

section \<open>Properties of the performance metrics\<close>

lemma fl_eq_simps [simp]:
  "fl_eq (Fin a) (Fin b) = (a = b)" "fl_eq NaN x = False"
  "fl_eq PInf (Fin b) = False" "fl_eq NInf (Fin b) = False"
  by (simp_all add: fl_eq_def)

lemma fl_div_NaN [simp]: "fl_div x NaN = NaN" "fl_div NaN y = NaN"
  by (cases x; simp) (cases y; simp)

lemma fl_mul_NaN [simp]: "fl_mul x NaN = NaN" "fl_mul NaN y = NaN"
  by (cases x; simp) (cases y; simp)

lemma fl_round_simps [simp]:
  "fl_round N (Fin a) = rnd N a" "fl_round N NaN = NaN"
  "fl_round N PInf = PInf" "fl_round N NInf = NInf"
  by (simp_all add: fl_round_def)





text \<open>
  With fewer than two returns pandas' standard deviation is not-a-number, and so is the
  ratio.
\<close>

lemma calculate_sharpe_ratio_nan:
  "std_of N (excess_of N r rf) = NaN \<Longrightarrow> calculate_sharpe_ratio N r rf = NaN"
  by (simp add: calculate_sharpe_ratio_def excess_of_def Let_def)



lemma sum_filter_pos: "sum_list (map pnl (filter (\<lambda>t. pnl t > 0) T)) = gross_profit T"
  unfolding gross_profit_def by (induction T) auto

lemma sum_filter_neg: "\<bar>sum_list (map pnl (filter (\<lambda>t. pnl t < 0) T))\<bar> = gross_loss T"
proof -
  have "sum_list (map pnl (filter (\<lambda>t. pnl t < 0) T)) = (\<Sum>t\<leftarrow>T. if pnl t < 0 then pnl t else 0)"
    by (induction T) auto
  then show ?thesis by (simp add: gross_loss_def)
qed

lemma gross_profit_nonneg: "0 \<le> gross_profit T"
  unfolding gross_profit_def by (rule sum_list_nonneg) auto

text \<open>
  Claim C7.  The profit factor of an empty trade ledger is 0; otherwise it is gross profit
  over gross loss, and when the gross loss is 0 it is plus infinity if the gross profit is
  positive and 0 if the gross profit is 0 as well (the gross profit is never negative).
\<close>

theorem calculate_profit_factor_spec:
  "(T = [] \<longrightarrow> calculate_profit_factor T = Fin 0) \<and>
   (T \<noteq> [] \<and> gross_loss T \<noteq> 0 \<longrightarrow>
      calculate_profit_factor T = Fin (gross_profit T / gross_loss T)) \<and>
   (T \<noteq> [] \<and> gross_loss T = 0 \<and> gross_profit T > 0 \<longrightarrow> calculate_profit_factor T = PInf) \<and>
   (T \<noteq> [] \<and> gross_loss T = 0 \<and> gross_profit T = 0 \<longrightarrow> calculate_profit_factor T = Fin 0) \<and>
   0 \<le> gross_profit T"
  by (simp add: calculate_profit_factor_def Let_def sum_filter_pos sum_filter_neg
      gross_profit_nonneg)

theorem calculate_profit_factor_witness:
  "calculate_profit_factor [] = Fin 0 \<and>
   calculate_profit_factor [\<lparr>pnl = 3\<rparr>, \<lparr>pnl = - 2\<rparr>] = Fin (3 / 2) \<and>
   calculate_profit_factor [\<lparr>pnl = 3\<rparr>] = PInf \<and>
   calculate_profit_factor [\<lparr>pnl = 0\<rparr>] = Fin 0"
  using calculate_profit_factor_spec [of "[]"]
    calculate_profit_factor_spec [of "[\<lparr>pnl = 3\<rparr>, \<lparr>pnl = - 2\<rparr>]"]
    calculate_profit_factor_spec [of "[\<lparr>pnl = 3\<rparr>]"]
    calculate_profit_factor_spec [of "[\<lparr>pnl = 0\<rparr>]"]
  by (simp add: gross_profit_def gross_loss_def)


subsection \<open>Maximum drawdown\<close>

lemma length_cummax_from [simp]: "length (cummax_from m xs) = length xs"
  by (induction xs arbitrary: m) simp_all

lemma length_cummax [simp]: "length (cummax xs) = length xs"
  by (simp add: cummax_def split: list.splits)

lemma cummax_from_nth:
  "i < length xs \<Longrightarrow> cummax_from m xs ! i = Max (insert m (set (take (Suc i) xs)))"
proof (induction xs arbitrary: m i)
  case Nil
  then show ?case by simp
next
  case (Cons x xs)
  show ?case
  proof (cases i)
    case 0
    then show ?thesis by (simp add: max.commute)
  next
    case (Suc k)
    with Cons.prems have k: "k < length xs" by simp
    have "cummax_from m (x # xs) ! i = Max (insert (max m x) (set (take (Suc k) xs)))"
      using Suc Cons.IH [OF k] by simp
    also have "\<dots> = Max (insert m (insert x (set (take (Suc k) xs))))"
      by (cases "set (take (Suc k) xs) = {}") (simp_all add: max.assoc)
    finally show ?thesis using Suc by simp
  qed
qed

lemma cummax_nth: "t < length E \<Longrightarrow> cummax E ! t = running_max E t"
proof (cases E)
  case Nil
  assume "t < length E"
  with Nil show ?thesis by simp
next
  case (Cons x xs)
  assume t: "t < length E"
  show ?thesis
  proof (cases t)
    case 0
    then show ?thesis using Cons by (simp add: cummax_def running_max_def)
  next
    case (Suc k)
    with t Cons have "k < length xs" by simp
    then show ?thesis
      using Cons Suc by (simp add: cummax_def running_max_def cummax_from_nth)
  qed
qed

lemma running_max_ge: "t < length E \<Longrightarrow> E ! t \<le> running_max E t"
  unfolding running_max_def
  by (rule Max_ge) (auto simp: in_set_conv_nth intro!: exI [of _ t])

lemma running_max_ge_prior:
  assumes "i \<le> t" "t < length E"
  shows "E ! i \<le> running_max E t"
  unfolding running_max_def
proof (rule Max_ge)
  show "finite (set (take (Suc t) E))" by simp
  have "take (Suc t) E ! i = E ! i" using assms by simp
  moreover have "i < length (take (Suc t) E)" using assms by simp
  ultimately show "E ! i \<in> set (take (Suc t) E)" by (metis nth_mem)
qed

lemma running_max_pos:
  assumes "\<forall>x \<in> set E. 0 < x" "t < length E"
  shows "0 < running_max E t"
  using running_max_ge [OF assms(2)] assms by (metis nth_mem less_le_trans)

lemma running_max_sorted:
  assumes "sorted E" "t < length E"
  shows "running_max E t = E ! t"
proof (rule antisym)
  show "running_max E t \<le> E ! t"
    unfolding running_max_def
  proof (rule Max.boundedI)
    show "finite (set (take (Suc t) E))" by simp
    show "set (take (Suc t) E) \<noteq> {}" using assms(2) by auto
    fix a assume "a \<in> set (take (Suc t) E)"
    then obtain i where "i < length (take (Suc t) E)" "take (Suc t) E ! i = a"
      by (auto simp: in_set_conv_nth)
    then have "i \<le> t" "a = E ! i" by auto
    with assms show "a \<le> E ! t" by (simp add: sorted_nth_mono)
  qed
  show "E ! t \<le> running_max E t" by (rule running_max_ge [OF assms(2)])
qed

lemma fold_fl_min_Fin: "fold fl_min (map Fin ys) (Fin y) = Fin (fold min ys y)"
  by (induction ys arbitrary: y) (auto simp: fl_min_def min_def)

lemma series_min_Fin:
  "ds \<noteq> [] \<Longrightarrow> series_min (map Fin ds) = Fin (Min (set ds))"
proof -
  assume "ds \<noteq> []"
  then obtain d ds' where ds: "ds = d # ds'" by (cases ds) auto
  have "filter (\<lambda>x. x \<noteq> NaN) (map Fin ds) = map Fin ds"
    by (induction ds) auto
  then have "series_min (map Fin ds) = fold fl_min (map Fin ds') (Fin d)"
    by (simp add: series_min_def ds)
  also have "\<dots> = Fin (fold min ds' d)" by (rule fold_fl_min_Fin)
  also have "fold min ds' d = Min (set ds)" unfolding ds by (rule Min.set_eq_fold [symmetric])
  finally show ?thesis .
qed

lemma drawdown_series:
  assumes "\<forall>x \<in> set E. 0 < x"
  shows "map (\<lambda>(e, m). fl_div (Fin (e - m)) (Fin m)) (zip E (cummax E)) =
         map Fin (map (drawdown_at E) [0..<length E])"
proof (rule nth_equalityI)
  show "length (map (\<lambda>(e, m). fl_div (Fin (e - m)) (Fin m)) (zip E (cummax E))) =
        length (map Fin (map (drawdown_at E) [0..<length E]))" by simp
next
  fix i assume "i < length (map (\<lambda>(e, m). fl_div (Fin (e - m)) (Fin m)) (zip E (cummax E)))"
  then have i: "i < length E" by simp
  have "running_max E i \<noteq> 0" using running_max_pos [OF assms i] by simp
  then show "map (\<lambda>(e, m). fl_div (Fin (e - m)) (Fin m)) (zip E (cummax E)) ! i =
        map Fin (map (drawdown_at E) [0..<length E]) ! i"
    using i by (simp add: cummax_nth drawdown_at_def)
qed

lemma max_drawdown_refines:
  assumes "E \<noteq> []" "\<forall>x \<in> set E. 0 < x"
  shows "calculate_max_drawdown E = Fin (max_drawdown_spec E)"
proof -
  have ne: "map (drawdown_at E) [0..<length E] \<noteq> []" using assms(1) by simp
  have img: "set (map (drawdown_at E) [0..<length E]) = drawdown_at E ` {..<length E}"
    by (simp add: lessThan_atLeast0)
  have "calculate_max_drawdown E =
      fl_mul (fl_abs (series_min (map Fin (map (drawdown_at E) [0..<length E])))) (Fin 100)"
    by (simp only: calculate_max_drawdown_def Let_def drawdown_series [OF assms(2)])
  also have "\<dots> = Fin (\<bar>Min (drawdown_at E ` {..<length E})\<bar> * 100)"
    by (simp only: series_min_Fin [OF ne] img fl_abs.simps fl_mul.simps)
  finally show ?thesis by (simp only: max_drawdown_spec_def)
qed

lemma drawdown_at_nonpos:
  assumes "\<forall>x \<in> set E. 0 < x" "t < length E"
  shows "drawdown_at E t \<le> 0"
  using running_max_ge [OF assms(2)] running_max_pos [OF assms]
  by (simp add: drawdown_at_def divide_le_0_iff)

lemma max_drawdown_sorted:
  assumes "E \<noteq> []" "sorted E"
  shows "max_drawdown_spec E = 0"
proof -
  have "drawdown_at E ` {..<length E} = {0}"
    using assms by (auto simp: drawdown_at_def running_max_sorted image_iff)
  then show ?thesis by (simp add: max_drawdown_spec_def)
qed

lemma max_drawdown_pos:
  assumes pos: "\<forall>x \<in> set E. 0 < x" and ij: "i < j" "j < length E" "E ! j < E ! i"
  shows "0 < max_drawdown_spec E"
proof -
  have "E ! i \<le> running_max E j" using ij by (simp add: running_max_ge_prior)
  with ij have "E ! j - running_max E j < 0" by simp
  then have neg: "drawdown_at E j < 0"
    using running_max_pos [OF pos ij(2)] by (simp add: drawdown_at_def divide_less_0_iff)
  have "Min (drawdown_at E ` {..<length E}) \<le> drawdown_at E j"
    using ij by (intro Min_le) auto
  with neg show ?thesis by (simp add: max_drawdown_spec_def)
qed

text \<open>
  Claim C6.  For a non-empty equity curve of positive values the maximum drawdown is
  \<open>\<bar>min over t of (E t - M t) / M t\<bar> * 100\<close> with \<open>M t\<close> the running maximum
  \<open>max (E 0 .. E t)\<close>; it is 0 when the curve is non-decreasing, and positive when
  some value lies strictly below an earlier one.
\<close>

theorem calculate_max_drawdown_spec:
  assumes "E \<noteq> []" and "\<forall>x \<in> set E. 0 < x"
  shows "calculate_max_drawdown E = Fin (max_drawdown_spec E) \<and>
         (sorted E \<longrightarrow> calculate_max_drawdown E = Fin 0) \<and>
         ((\<exists>i j. i < j \<and> j < length E \<and> E ! j < E ! i) \<longrightarrow>
            (\<exists>d. 0 < d \<and> calculate_max_drawdown E = Fin d))"
proof (intro conjI impI)
  show eq: "calculate_max_drawdown E = Fin (max_drawdown_spec E)"
    using assms by (rule max_drawdown_refines)
  show "calculate_max_drawdown E = Fin 0" if "sorted E"
    using eq max_drawdown_sorted [OF assms(1) that] by simp
  show "\<exists>d. 0 < d \<and> calculate_max_drawdown E = Fin d"
    if "\<exists>i j. i < j \<and> j < length E \<and> E ! j < E ! i"
  proof -
    from that obtain i j where "i < j" "j < length E" "E ! j < E ! i" by blast
    then have "0 < max_drawdown_spec E" by (rule max_drawdown_pos [OF assms(2)])
    with eq show ?thesis by blast
  qed
qed

theorem calculate_max_drawdown_witness:
  "calculate_max_drawdown [100, 120, 90, 130] = Fin 25 \<and>
   (\<exists>d. 0 < d \<and> calculate_max_drawdown [100, 120, 90, 130] = Fin d) \<and>
   calculate_max_drawdown [100, 110] = Fin 0"
proof -
  have a: "[100, 120, 90, 130] \<noteq> ([] :: real list)" "\<forall>x \<in> set [100, 120, 90, 130 :: real]. 0 < x"
    by simp_all
  have b: "[100, 110] \<noteq> ([] :: real list)" "\<forall>x \<in> set [100, 110 :: real]. 0 < x" "sorted [100, 110 :: real]"
    by simp_all
  have c: "\<exists>i j. i < j \<and> j < length [100, 120, 90, 130 :: real] \<and>
      [100, 120, 90, 130 :: real] ! j < [100, 120, 90, 130] ! i"
    by (rule exI [of _ 1], rule exI [of _ 2]) simp
  have m: "max_drawdown_spec [100, 120, 90, 130] = 25"
    by (simp add: max_drawdown_spec_def drawdown_at_def running_max_def lessThan_Suc eval_nat_numeral)
  from calculate_max_drawdown_spec [OF a] c m
  have 1: "calculate_max_drawdown [100, 120, 90, 130] = Fin 25"
    and 2: "\<exists>d. 0 < d \<and> calculate_max_drawdown [100, 120, 90, 130] = Fin d"
    by simp_all
  from calculate_max_drawdown_spec [OF b(1,2)] b(3)
  have 3: "calculate_max_drawdown [100, 110] = Fin 0" by blast
  from 1 2 3 show ?thesis by blast
qed

section \<open>Properties of the benchmark comparison\<close>

lemma index_unique_distinct: "distinct ks \<Longrightarrow> index_unique ks = ks"
  by (simp add: index_unique_def distinct_remdups_id)

lemma index_intersection_self: "distinct ks \<Longrightarrow> index_intersection ks ks = ks"
  by (simp add: index_intersection_def index_unique_distinct)

lemma loc_rows_distinct:
  "distinct (map fst s) \<Longrightarrow>
     concat (map (\<lambda>k. map snd (filter (\<lambda>row. fst row = k) s)) (map fst s)) = map snd s"
proof (induction s)
  case Nil
  then show ?case by simp
next
  case (Cons r s)
  let ?f = "\<lambda>s k. map snd (filter (\<lambda>row. fst row = k) s)"
  from Cons.prems have notin: "fst r \<notin> fst ` set s" and d: "distinct (map fst s)" by auto
  have "\<forall>row \<in> set s. fst row \<noteq> fst r" using notin by (metis imageI)
  then have "filter (\<lambda>row. fst row = fst r) s = []" by (simp add: filter_empty_conv)
  then have A: "?f (r # s) (fst r) = [snd r]" by simp
  have B: "map (?f (r # s)) (map fst s) = map (?f s) (map fst s)"
  proof (rule map_cong [OF refl])
    fix k assume "k \<in> set (map fst s)"
    with notin have "fst r \<noteq> k" by auto
    then show "?f (r # s) k = ?f s k" by simp
  qed
  have "concat (map (?f (r # s)) (map fst (r # s))) =
        ?f (r # s) (fst r) @ concat (map (?f (r # s)) (map fst s))"
    by (simp only: list.map concat.simps)
  also have "\<dots> = [snd r] @ concat (map (?f s) (map fst s))" by (simp only: A B)
  also have "\<dots> = [snd r] @ map snd s" by (simp only: Cons.IH [OF d])
  finally show ?case by simp
qed

lemma loc_self:
  assumes "distinct (map fst s)"
  shows "loc s (map fst s) = Inr (map snd s)"
proof -
  have "list_all (\<lambda>k. k \<in> set (map fst s)) (map fst s)" by (simp add: list_all_iff)
  then show ?thesis
    by (simp only: loc_def loc_rows_distinct [OF assms] not_True_eq_False if_False)
qed

lemma sum_co_dev_self: "sum_co_dev xs xs = sum_sq_dev xs"
  by (simp add: sum_co_dev_def sum_sq_dev_def power2_eq_square zip_same_conv_map comp_def)

lemma sum_sq_dev_nonneg: "0 \<le> sum_sq_dev xs"
  unfolding sum_sq_dev_def by (rule sum_list_nonneg) auto

lemma sum_sq_dev_zero_const:
  assumes "sum_sq_dev xs = 0" "a \<in> set xs"
  shows "a = mean xs"
proof -
  have "\<forall>y \<in> set (map (\<lambda>x. (x - mean xs)\<^sup>2) xs). y = 0"
    using assms(1) unfolding sum_sq_dev_def
    by (subst (asm) sum_list_nonneg_eq_0_iff) auto
  with assms(2) show ?thesis by auto
qed

lemma sum_sq_dev_pos:
  assumes "a \<in> set xs" "b \<in> set xs" "a \<noteq> b"
  shows "0 < sum_sq_dev xs"
proof (rule ccontr)
  assume "\<not> 0 < sum_sq_dev xs"
  with sum_sq_dev_nonneg [of xs] have z: "sum_sq_dev xs = 0" by simp
  from sum_sq_dev_zero_const [OF z assms(1)] sum_sq_dev_zero_const [OF z assms(2)] assms(3)
  show False by simp
qed

lemma beta_self_value:
  assumes n: "2 \<le> length xs" and S: "0 < sum_sq_dev xs"
  shows "(if \<not> fl_eq (np_var xs) (Fin 0) then fl_div (np_cov xs xs) (np_var xs) else Fin 1)
         = Fin (real (length xs) / (real (length xs) - 1))"
proof -
  from n have ne: "xs \<noteq> []" by auto
  from n have r: "real (length xs - 1) = real (length xs) - 1" by simp
  have v: "np_var xs = Fin (sum_sq_dev xs / real (length xs))" using ne by (simp add: np_var_def)
  have c: "np_cov xs xs = Fin (sum_sq_dev xs / (real (length xs) - 1))"
    using n by (simp add: np_cov_def sum_co_dev_self r)
  have vn: "sum_sq_dev xs / real (length xs) \<noteq> 0" using S ne by simp
  show ?thesis using S n vn by (simp add: v c field_simps)
qed

lemma compare_beta_self:
  assumes "distinct (map fst x)" "2 \<le> length x"
    and "a \<in> set (map snd x)" "b \<in> set (map snd x)" "a \<noteq> b"
  shows "compare_with_benchmark_beta x x = Inr (Fin (real (length x) / (real (length x) - 1)))"
proof -
  have S: "0 < sum_sq_dev (map snd x)" using assms(3-5) by (rule sum_sq_dev_pos)
  have n: "2 \<le> length (map snd x)" using assms(2) by simp
  show ?thesis
    unfolding compare_with_benchmark_beta_def Let_def
    using beta_self_value [OF n S]
    by (simp add: index_intersection_self [OF assms(1)] loc_self [OF assms(1)])
qed

lemma corrcoef_self:
  assumes n: "2 \<le> length xs" and S: "0 < sum_sq_dev xs"
  shows "np_corrcoef xs xs = Fin 1"
proof -
  define c where "c = sum_sq_dev xs / (real (length xs) - 1)"
  from n have r: "real (length xs - 1) = real (length xs) - 1" by simp
  have cpos: "0 < c" using n S by (simp add: c_def)
  have cv: "np_cov xs xs = Fin c" using n by (simp add: np_cov_def sum_co_dev_self r c_def)
  have "c / sqrt c / sqrt c = 1" using cpos by simp
  then show ?thesis using cpos by (simp add: np_corrcoef_def cv fl_clip_def)
qed

lemma calculate_alpha_beta_self:
  assumes d: "distinct (map fst x)" and len: "30 \<le> length x"
    and ab: "a \<in> set (map snd x)" "b \<in> set (map snd x)" "a \<noteq> b"
  shows "calculate_alpha_beta x x =
     Inr [(''alpha'', Fin (((1 + mean (map snd x)) ^ 252 - 1
                           - real (length x) / (real (length x) - 1)
                             * ((1 + mean (map snd x)) ^ 252 - 1)) * 100)),
          (''beta'', Fin (real (length x) / (real (length x) - 1))),
          (''correlation'', Fin 1)]"
proof -
  define xs where "xs = map snd x"
  have S: "0 < sum_sq_dev xs" using ab unfolding xs_def by (rule sum_sq_dev_pos)
  have n: "2 \<le> length xs" and ne: "xs \<noteq> []" and l: "length xs = length x"
    using len by (auto simp: xs_def)
  have m: "series_mean xs = Fin (mean xs)" using ne by (simp add: series_mean_def)
  have guard: "\<not> length (index_intersection (map fst x) (map fst x)) < 30"
    using len by (simp add: index_intersection_self [OF d])
  have "calculate_alpha_beta x x =
      (let covariance = np_cov xs xs;
           benchmark_variance = np_var xs;
           beta = (if \<not> fl_eq benchmark_variance (Fin 0)
                   then fl_div covariance benchmark_variance else Fin 1);
           strategy_return = fl_sub (fl_pow (fl_add (Fin 1) (series_mean xs)) 252) (Fin 1);
           benchmark_return = fl_sub (fl_pow (fl_add (Fin 1) (series_mean xs)) 252) (Fin 1);
           alpha = fl_sub strategy_return (fl_mul beta benchmark_return);
           correlation = np_corrcoef xs xs
       in Inr [(''alpha'', fl_mul alpha (Fin 100)), (''beta'', beta),
               (''correlation'', correlation)])"
    unfolding calculate_alpha_beta_def Let_def
    using len by (simp add: index_intersection_self [OF d] loc_self [OF d] xs_def)
  also have "\<dots> = Inr [(''alpha'', Fin (((1 + mean xs) ^ 252 - 1
                           - real (length xs) / (real (length xs) - 1)
                             * ((1 + mean xs) ^ 252 - 1)) * 100)),
          (''beta'', Fin (real (length xs) / (real (length xs) - 1))),
          (''correlation'', Fin 1)]"
    unfolding Let_def beta_self_value [OF n S] corrcoef_self [OF n S] m
    by (simp add: fl_sub_def)
  finally show ?thesis by (simp only: xs_def l length_map)
qed

lemma spike_distinct: "distinct (map fst spike_series)"
  by (auto simp: spike_series_def comp_def distinct_map inj_on_def)

lemma spike_length: "length spike_series = 30"
  by (simp add: spike_series_def)

lemma spike_values:
  "3 / 100 \<in> set (map snd spike_series)" "0 \<in> set (map snd spike_series)"
proof -
  show "3 / 100 \<in> set (map snd spike_series)" by (simp add: spike_series_def)
  have "map snd spike_series ! 1 = 0" by (simp add: spike_series_def)
  moreover have "1 < length (map snd spike_series)" by (simp add: spike_series_def)
  ultimately show "0 \<in> set (map snd spike_series)" by (metis nth_mem)
qed

lemma spike_mean: "mean (map snd spike_series) = 1 / 1000"
  by (simp add: spike_series_def mean_def comp_def)

text \<open>
  Claim C1.  Comparing a non-constant series with itself should give beta 1 and alpha 0.
  The code divides the sample covariance (\<open>np.cov\<close>, divisor \<open>n - 1\<close>) by the
  population variance (\<open>np.var\<close>, divisor \<open>n\<close>), so that beta of a series of \<open>n\<close>
  points against itself is \<open>n / (n - 1)\<close> (lemmas \<open>calculate_alpha_beta_self\<close> and
  \<open>compare_beta_self\<close>).  On the thirty-day series \<open>spike_series\<close> beta is \<open>30/29\<close>
  and alpha is negative, both in \<open>calculate_alpha_beta\<close> and in the beta of
  \<open>_compare_with_benchmark\<close>.
\<close>

theorem calculate_alpha_beta_self_at_spike:
  "\<exists>a. a < 0 \<and>
     calculate_alpha_beta spike_series spike_series =
       Inr [(''alpha'', Fin a), (''beta'', Fin (30 / 29)), (''correlation'', Fin 1)] \<and>
     compare_with_benchmark_beta spike_series spike_series = Inr (Fin (30 / 29))"
proof -
  have ne: "(3 / 100 :: real) \<noteq> 0" by simp
  have len30: "30 \<le> length spike_series" and len2: "2 \<le> length spike_series"
    by (simp_all add: spike_length)
  define g :: real where "g = (1 + 1 / 1000) ^ 252 - 1"
  have "(1::real) < (1 + 1 / 1000) ^ 252" by (rule one_less_power) simp_all
  then have gpos: "0 < g" by (simp add: g_def)
  have "calculate_alpha_beta spike_series spike_series =
      Inr [(''alpha'', Fin ((g - 30 / 29 * g) * 100)), (''beta'', Fin (30 / 29)),
           (''correlation'', Fin 1)]"
    unfolding calculate_alpha_beta_self [OF spike_distinct len30 spike_values ne]
    by (simp only: spike_length spike_mean g_def) simp
  moreover have "(g - 30 / 29 * g) * 100 < 0" using gpos by simp
  moreover have "compare_with_benchmark_beta spike_series spike_series = Inr (Fin (30 / 29))"
    unfolding compare_beta_self [OF spike_distinct len2 spike_values ne]
    by (simp add: spike_length)
  ultimately show ?thesis by blast
qed

text \<open>
  Claim C3.  When the two series share fewer than 30 timestamps, the alpha/beta
  computation does not fail and returns \<open>{alpha: 0, beta: 1, correlation: 0}\<close>.  (The
  returned dictionary holds these three entries and nothing else: the short overlap is
  written to the log only.)
\<close>

theorem calculate_alpha_beta_insufficient:
  "length (index_intersection (map fst s) (map fst b)) < 30 \<Longrightarrow>
     calculate_alpha_beta s b =
       Inr [(''alpha'', Fin 0), (''beta'', Fin 1), (''correlation'', Fin 0)]"
  by (simp add: calculate_alpha_beta_def)

theorem calculate_alpha_beta_insufficient_witness:
  "length (index_intersection (map fst one_day_strategy) (map fst one_day_benchmark)) < 30 \<and>
   calculate_alpha_beta one_day_strategy one_day_benchmark =
     Inr [(''alpha'', Fin 0), (''beta'', Fin 1), (''correlation'', Fin 0)]"
proof -
  have h: "length (index_intersection (map fst one_day_strategy) (map fst one_day_benchmark)) < 30"
    by (simp add: one_day_strategy_def one_day_benchmark_def index_intersection_def
        index_unique_def)
  from h calculate_alpha_beta_insufficient [OF h] show ?thesis by blast
qed

text \<open>
  The dictionary returned for a one-point overlap carries no entry besides alpha, beta and
  correlation: there is no insufficient-data flag in it.
\<close>

theorem calculate_alpha_beta_no_flag:
  "calculate_alpha_beta one_day_strategy one_day_benchmark =
     Inr [(''alpha'', Fin 0), (''beta'', Fin 1), (''correlation'', Fin 0)] \<and>
   flag_entries [(''alpha'', Fin 0), (''beta'', Fin 1), (''correlation'', Fin 0)] = []"
  by (simp add: calculate_alpha_beta_def one_day_strategy_def one_day_benchmark_def
      index_intersection_def index_unique_def flag_entries_def)

section \<open>Properties of the multi-period run\<close>

lemma fold_fl_add_Fin: "fold fl_add (map Fin xs) (Fin a) = Fin (a + sum_list xs)"
  by (induction xs arbitrary: a) (simp_all add: add.assoc)




lemma collect_ratios_windows:
  "list_all window_entry results \<Longrightarrow>
     collect_ratios results =
       Inr (map sharpe_ratio (successful results), map total_return (successful results))"
proof (induction results)
  case Nil
  then show ?case by (simp add: successful_def)
next
  case (Cons e results)
  obtain k v where e: "e = (k, v)" by (cases e)
  from Cons.prems e obtain y res where kv: "k = Period y" "v = Backtest res"
    by (cases k; cases v) auto
  from Cons have IH: "collect_ratios results =
       Inr (map sharpe_ratio (successful results), map total_return (successful results))"
    by simp
  show ?case by (cases res) (simp_all add: e kv IH successful_def)
qed

lemma analyze_consistency_windows:
  "list_all window_entry results \<Longrightarrow>
     analyze_consistency N results = Inr (aggregate N (successful results))"
  by (simp add: analyze_consistency_def collect_ratios_windows aggregate_def)





lemma run_periods_snoc:
  "run_periods run i (ps @ [y]) res =
     AList.update (Period y) (Backtest (run (i + length ps) y)) (run_periods run i ps res)"
  by (induction ps arbitrary: i res) simp_all

lemma update_window_entries:
  "list_all window_entry res \<Longrightarrow>
     list_all window_entry (AList.update (Period y) (Backtest r) res)"
  by (induction res) auto

lemma run_periods_window_entries:
  "list_all window_entry res \<Longrightarrow> list_all window_entry (run_periods run i ps res)"
  by (induction ps arbitrary: i res) (simp_all add: update_window_entries)

lemma run_periods_keys:
  "fst ` set (run_periods run i ps res) = Period ` set ps \<union> fst ` set res"
  by (induction ps arbitrary: i res) (auto simp: dom_update)

lemma run_periods_lookup_last:
  assumes "i < length ps" and "\<forall>j. i < j \<and> j < length ps \<longrightarrow> ps ! j \<noteq> ps ! i"
  shows "map_of (run_periods run n ps res) (Period (ps ! i)) = Some (Backtest (run (n + i) (ps ! i)))"
  using assms
proof (induction ps rule: rev_induct)
  case Nil
  then show ?case by simp
next
  case (snoc y ps)
  show ?case
  proof (cases "i = length ps")
    case True
    then show ?thesis by (simp add: run_periods_snoc update_conv')
  next
    case False
    with snoc.prems(1) have i: "i < length ps" by simp
    have later: "\<forall>j. i < j \<and> j < length ps \<longrightarrow> ps ! j \<noteq> ps ! i"
    proof (intro allI impI)
      fix j assume j: "i < j \<and> j < length ps"
      then have "(ps @ [y]) ! j \<noteq> (ps @ [y]) ! i" using snoc.prems(2) by simp
      with j i show "ps ! j \<noteq> ps ! i" by (simp add: nth_append)
    qed
    have "i < length ps \<and> length ps < length (ps @ [y])" using i by simp
    with snoc.prems(2) have "(ps @ [y]) ! length ps \<noteq> (ps @ [y]) ! i" by blast
    with i have ne: "y \<noteq> ps ! i" by (simp add: nth_append)
    show ?thesis
      using snoc.IH [OF i later] i ne by (simp add: run_periods_snoc update_conv' nth_append)
  qed
qed

lemma alist_update_set: "e \<in> set (AList.update k v al) \<Longrightarrow> e = (k, v) \<or> e \<in> set al"
  by (induction al) (auto split: if_splits)

lemma run_periods_entries:
  "e \<in> set (run_periods run n ps res) \<Longrightarrow>
     e \<in> set res \<or> (\<exists>j < length ps. e = (Period (ps ! j), Backtest (run (n + j) (ps ! j))))"
proof (induction ps arbitrary: res rule: rev_induct)
  case Nil
  then show ?case by simp
next
  case (snoc y ps)
  from snoc.prems have "e \<in> set (AList.update (Period y) (Backtest (run (n + length ps) y))
                                  (run_periods run n ps res))"
    by (simp add: run_periods_snoc)
  then have "e = (Period y, Backtest (run (n + length ps) y)) \<or> e \<in> set (run_periods run n ps res)"
    by (rule alist_update_set)
  then show ?case
  proof
    assume "e = (Period y, Backtest (run (n + length ps) y))"
    then have "length ps < length (ps @ [y]) \<and>
        e = (Period ((ps @ [y]) ! length ps), Backtest (run (n + length ps) ((ps @ [y]) ! length ps)))"
      by simp
    then show ?thesis by blast
  next
    assume "e \<in> set (run_periods run n ps res)"
    from snoc.IH [OF this] show ?thesis
    proof
      assume "e \<in> set res" then show ?thesis by simp
    next
      assume "\<exists>j<length ps. e = (Period (ps ! j), Backtest (run (n + j) (ps ! j)))"
      then obtain j where "j < length ps" "e = (Period (ps ! j), Backtest (run (n + j) (ps ! j)))"
        by blast
      then have "j < length (ps @ [y]) \<and>
          e = (Period ((ps @ [y]) ! j), Backtest (run (n + j) ((ps @ [y]) ! j)))"
        by (simp add: nth_append)
      then show ?thesis by blast
    qed
  qed
qed

lemma successful_empty:
  "(\<forall>e \<in> set results. successful_entry e = []) \<Longrightarrow> successful results = []"
  by (simp add: successful_def)

lemma aggregate_single:
  "aggregate exact_numerics [\<lparr>total_return = Fin 10, sharpe_ratio = Fin 1\<rparr>] =
     [(''sharpe_consistency'', Number (Fin 0)), (''return_consistency'', Number (Fin 0)),
      (''avg_sharpe'', Number (Fin 1)), (''avg_return'', Number (Fin 10)),
      (''is_consistent'', Boolean True)]"
  by (simp add: aggregate_def np_std_def finite_values_def exact_numerics_def exact_mean_def
      population_std_def sum_sq_dev_def mean_def)

text \<open>
  Claim C9.  A batch run never fails.  Every requested window is recorded under its key
  with the result of its backtest, an error included (for a window requested more than
  once, the last run); the analysis aggregates the successful windows only; and when
  every window fails the analysis is the empty dictionary.
\<close>

theorem run_multiple_backtests_spec:
  "let results = run_periods run 0 periods [] in
     run_multiple_backtests N run periods =
       Inr (AList.update Consistency_analysis (Analysis (aggregate N (successful results))) results) \<and>
     fst ` set results = Period ` set periods \<and>
     (\<forall>i < length periods.
        (\<forall>j. i < j \<and> j < length periods \<longrightarrow> periods ! j \<noteq> periods ! i) \<longrightarrow>
        map_of results (Period (periods ! i)) = Some (Backtest (run i (periods ! i)))) \<and>
     ((\<forall>i < length periods. isl (run i (periods ! i))) \<longrightarrow> aggregate N (successful results) = [])"
proof -
  define results where "results = run_periods run 0 periods []"
  have w: "list_all window_entry results"
    unfolding results_def by (rule run_periods_window_entries) simp
  have "run_multiple_backtests N run periods =
       (case analyze_consistency N results of Inl e \<Rightarrow> Inl e
        | Inr analysis \<Rightarrow> Inr (AList.update Consistency_analysis (Analysis analysis) results))"
    by (simp only: run_multiple_backtests_def Let_def results_def)
  then have 1: "run_multiple_backtests N run periods =
       Inr (AList.update Consistency_analysis (Analysis (aggregate N (successful results))) results)"
    by (simp only: analyze_consistency_windows [OF w] sum.case)
  have 2: "fst ` set results = Period ` set periods"
    by (simp add: results_def run_periods_keys)
  have 3: "map_of results (Period (periods ! i)) = Some (Backtest (run i (periods ! i)))"
    if "i < length periods" "\<forall>j. i < j \<and> j < length periods \<longrightarrow> periods ! j \<noteq> periods ! i" for i
    using run_periods_lookup_last [OF that, of run 0 "[]"] by (simp add: results_def)
  have 4: "aggregate N (successful results) = []" if fail: "\<forall>i < length periods. isl (run i (periods ! i))"
  proof -
    have "successful_entry e = []" if "e \<in> set results" for e
    proof -
      from that have "e \<in> set (run_periods run 0 periods [])" by (simp only: results_def)
      from run_periods_entries [OF this]
      obtain j where j: "j < length periods" "e = (Period (periods ! j), Backtest (run (0 + j) (periods ! j)))"
        by auto
      from fail j(1) have "isl (run j (periods ! j))" by simp
      then obtain msg where "run j (periods ! j) = Inl msg" by (cases "run j (periods ! j)") auto
      with j(2) show ?thesis by simp
    qed
    then have "successful results = []" by (simp add: successful_empty)
    then show ?thesis by (simp add: aggregate_def)
  qed
  have "run_multiple_backtests N run periods =
       Inr (AList.update Consistency_analysis (Analysis (aggregate N (successful results))) results) \<and>
     fst ` set results = Period ` set periods \<and>
     (\<forall>i < length periods.
        (\<forall>j. i < j \<and> j < length periods \<longrightarrow> periods ! j \<noteq> periods ! i) \<longrightarrow>
        map_of results (Period (periods ! i)) = Some (Backtest (run i (periods ! i)))) \<and>
     ((\<forall>i < length periods. isl (run i (periods ! i))) \<longrightarrow> aggregate N (successful results) = [])"
  proof (intro conjI allI impI)
    show "run_multiple_backtests N run periods =
       Inr (AList.update Consistency_analysis (Analysis (aggregate N (successful results))) results)"
      by (rule 1)
    show "fst ` set results = Period ` set periods" by (rule 2)
    show "map_of results (Period (periods ! i)) = Some (Backtest (run i (periods ! i)))"
      if "i < length periods" "\<forall>j. i < j \<and> j < length periods \<longrightarrow> periods ! j \<noteq> periods ! i" for i
      using that by (rule 3)
    show "aggregate N (successful results) = []" if "\<forall>i < length periods. isl (run i (periods ! i))"
      using that by (rule 4)
  qed
  from this [unfolded results_def] show ?thesis unfolding Let_def .
qed

theorem run_multiple_backtests_witness:
  "run_multiple_backtests exact_numerics one_year_fails [1, 5] =
     Inr [(Period 1, Backtest (Inl ''Data fetch failed'')),
          (Period 5, Backtest (Inr \<lparr>total_return = Fin 10, sharpe_ratio = Fin 1\<rparr>)),
          (Consistency_analysis,
           Analysis [(''sharpe_consistency'', Number (Fin 0)),
                     (''return_consistency'', Number (Fin 0)),
                     (''avg_sharpe'', Number (Fin 1)), (''avg_return'', Number (Fin 10)),
                     (''is_consistent'', Boolean True)])] \<and>
   run_multiple_backtests exact_numerics all_fail [1, 5] =
     Inr [(Period 1, Backtest (Inl ''Data fetch failed'')),
          (Period 5, Backtest (Inl ''Data fetch failed'')),
          (Consistency_analysis, Analysis [])]"
proof -
  have a: "run_multiple_backtests exact_numerics one_year_fails [1, 5] =
      Inr (AList.update Consistency_analysis
            (Analysis (aggregate exact_numerics (successful (run_periods one_year_fails 0 [1, 5] []))))
            (run_periods one_year_fails 0 [1, 5] []))"
    using run_multiple_backtests_spec [where N = exact_numerics and run = one_year_fails and periods = "[1, 5]"]
    unfolding Let_def by (rule conjunct1)
  have b: "run_multiple_backtests exact_numerics all_fail [1, 5] =
      Inr (AList.update Consistency_analysis
            (Analysis (aggregate exact_numerics (successful (run_periods all_fail 0 [1, 5] []))))
            (run_periods all_fail 0 [1, 5] []))"
    using run_multiple_backtests_spec [where N = exact_numerics and run = all_fail and periods = "[1, 5]"]
    unfolding Let_def by (rule conjunct1)
  have c: "\<forall>i < length [1, 5 :: int]. isl (all_fail i ([1, 5] ! i))"
    by (simp add: all_fail_def)
  have d: "aggregate exact_numerics (successful (run_periods all_fail 0 [1, 5] [])) = []"
    using run_multiple_backtests_spec [where N = exact_numerics and run = all_fail and periods = "[1, 5]"] c
    unfolding Let_def by blast
  have e: "aggregate exact_numerics (successful (run_periods one_year_fails 0 [1, 5] [])) =
      aggregate exact_numerics [\<lparr>total_return = Fin 10, sharpe_ratio = Fin 1\<rparr>]"
    by (simp add: one_year_fails_def successful_def)
  show ?thesis
    unfolding a b d e aggregate_single
    by (simp add: one_year_fails_def all_fail_def)
qed

section \<open>Determinism of a backtest\<close>

lemma flat_returns: "pct_change (map snd flat_prices) = [NaN, Fin 0, Fin 0, Fin 0, Fin 0, Fin 0, Fin 0]"
  by (simp add: flat_prices_def pct_change_def upt_rec fl_sub_def)

lemma flat_rolled:
  "rolling_mean 5 [NaN, Fin 0, Fin 0, Fin 0, Fin 0, Fin 0, Fin 0] =
     [NaN, NaN, NaN, NaN, NaN, Fin 0, Fin 0]"
  by (simp add: rolling_mean_def upt_rec Let_def eval_nat_numeral)

text \<open>
  Claim C2.  The report of a backtest is a function of its inputs and of the random draws
  made in \<open>fetch_social_historical_data\<close>.  It does not depend on the draws when the
  strategy's signals do not depend on the social data (or when no strategy is run).
\<close>

theorem run_backtest_draws_irrelevant:
  assumes "\<forall>g. algorithm_code = Strategy_class g \<longrightarrow> (\<forall>p s s'. g p s = g p s')"
  shows "run_backtest provider rng from_signals results_of algorithm_code ticker years capital =
         run_backtest provider rng' from_signals results_of algorithm_code ticker years capital"
proof (cases algorithm_code)
  case (Strategy_class g)
  with assms have "\<And>p s s'. g p s = g p s'" by blast
  then have "\<And>p. g p (fetch_social_historical_data provider rng ticker years) =
                  g p (fetch_social_historical_data provider rng' ticker years)" by blast
  then show ?thesis
    by (simp add: run_backtest_def Let_def Strategy_class split: option.splits)
qed (simp_all add: run_backtest_def Let_def split: option.splits)

theorem run_backtest_draws_irrelevant_witness:
  "run_backtest flat_provider draws_a simulate_trades total_trades_of price_strategy
     ''AAPL'' 1 100000 =
   run_backtest flat_provider draws_b simulate_trades total_trades_of price_strategy
     ''AAPL'' 1 100000"
proof -
  have "\<forall>g. price_strategy = Strategy_class g \<longrightarrow> (\<forall>p s s'. g p s = g p s')"
    by (auto simp: price_strategy_def)
  then show ?thesis by (rule run_backtest_draws_irrelevant)
qed

text \<open>
  The same inputs with two outcomes of the draws: a strategy that trades on sentiment
  closes one trade in one run and none in the other.
\<close>

theorem run_backtest_depends_on_draws:
  "run_backtest flat_provider draws_a simulate_trades total_trades_of sentiment_strategy
     ''AAPL'' 1 100000 = Inr 1 \<and>
   run_backtest flat_provider draws_b simulate_trades total_trades_of sentiment_strategy
     ''AAPL'' 1 100000 = Inr 0"
  unfolding run_backtest_def fetch_social_historical_data_def flat_provider_def option.case Let_def
    flat_returns flat_rolled
  by (simp add: flat_prices_def draws_a_def draws_b_def upt_rec eval_nat_numeral
      sentiment_strategy_def simulate_trades_def total_trades_of_def)

section \<open>Loading the engine's module\<close>

text \<open>
  Claim C10.  Executing backtest\_engine.py raises \<open>NameError\<close> for \<open>List\<close> while the
  class body is executed, so that importing \<open>BacktestEngine\<close> from it fails and none of
  its methods can be reached.
\<close>

theorem backtest_engine_module_fails:
  "exec_module [] backtest_engine_module = Inl (NameError ''List'') \<and>
   import_from backtest_engine_module ''BacktestEngine'' = Inl (NameError ''List'')"
  by (simp add: import_from_def backtest_engine_module_def builtins_def)

text \<open>With \<open>List\<close> imported as well, the module loads and binds the class.\<close>

lemma backtest_engine_module_loads_with_List:
  "import_from (Import [''List''] # backtest_engine_module) ''BacktestEngine'' =
     Inr ''BacktestEngine''"
  by (simp add: import_from_def backtest_engine_module_def builtins_def)

end
